theory Spec2Isabelle
  imports Complex_Main "HOL-Library.Signed_Division"
begin

section \<open>The device context of openfpm\_devices: \<open>src/util/ofp_context.hpp\<close>\<close>

text \<open>
  The header declares the class \<open>gpu::ofp_context_t\<close> three times, one declaration per build
  configuration: under \<open>CUDA_ON_CPU\<close> (lines 13-108, the CPU stub), under \<open>CUDA_GPU\<close>
  (lines 111-286, the real accelerator) and in the remaining case (lines 288-309, a struct with
  a constructor only). The three are embedded side by side; the functions of the accelerator
  class carry the suffix \<open>_gpu\<close>, those of the CPU stub \<open>_cpu\<close> and the constructor of the last
  one \<open>_disabled\<close>.
\<close>

subsection \<open>Types shared by the three declarations\<close>

text \<open>\<open>enum gpu_context_opt\<close> (lines 17-22, 117-122 and 293-298, the same three times).\<close>

datatype gpu_context_opt = no_print_props | print_props | dummy

text \<open>
  Modelled from the spec: \<open>memory_space_t\<close> is declared in \<open>util/gpu_context.hpp\<close>, which is
  not among the sources. The spec calls it the ``device-space enumeration distinguishing
  device-resident vs host-pinned allocation targets''; the code compares a value of it with
  \<open>memory_space_device\<close> only.
\<close>

datatype memory_space_t = memory_space_device | memory_space_host

text \<open>
  Addresses, stream handles and event handles are numbers; \<open>nullptr\<close>, \<open>NULL\<close> and the default
  stream are \<open>0\<close>. \<open>size_t\<close> is a natural number: no arithmetic is done on a size.
\<close>

type_synonym voidp = nat
type_synonym size_t = nat
type_synonym cudaStream_t = nat
type_synonym cudaEvent_t = nat

definition nullptr :: voidp where
  "nullptr = 0"

text \<open>The character \<open>std::endl\<close> and the \<open>\n\<close> of \<open>printf\<close> write.\<close>

definition endl :: string where
  "endl = [CHR 0x0A]"

subsection \<open>The accelerator's runtime\<close>

text \<open>
  The CUDA runtime is not code of this repository: it is a parameter of the embedding. A
  runtime has a state of its own (type \<open>'s\<close>); each entry point takes the arguments the code
  passes by value and the state, and returns the \<open>cudaError_t\<close> of the call, the contents of
  the out-parameter after the call where there is one, and the new state.
  \<open>cudaSuccess\<close> is \<open>0\<close>, as in the runtime's headers.

  A member or local the code never initialises holds an indeterminate value. Where the code
  may pass one on (an event handle, the properties, a device ordinal), its type is an
  \<open>option\<close> and \<open>None\<close> is ``never written''. The out-parameter of \<open>cudaEventCreate\<close>,
  \<open>cudaGetDeviceProperties\<close> and \<open>cudaGetDevice\<close> is \<open>None\<close> after the call when the runtime
  wrote nothing. The type \<open>'p\<close> stands for \<open>cudaDeviceProp\<close>.

  Floating-point numbers are the reals they denote: \<open>cudaEventElapsedTime\<close> yields the
  \<open>float\<close> it stored as a real.
\<close>

type_synonym cudaError_t = int

definition cudaSuccess :: cudaError_t where
  "cudaSuccess = 0"

record ('s, 'p) cuda_runtime =
  cudaFuncGetAttributes :: "'s \<Rightarrow> (cudaError_t \<times> int) \<times> 's"
  cudaGetDeviceCount :: "'s \<Rightarrow> (cudaError_t \<times> int) \<times> 's"
  cudaSetDevice :: "int \<Rightarrow> 's \<Rightarrow> cudaError_t \<times> 's"
  cudaGetDevice :: "'s \<Rightarrow> (cudaError_t \<times> int option) \<times> 's"
  cudaGetDeviceProperties :: "int option \<Rightarrow> 's \<Rightarrow> (cudaError_t \<times> 'p option) \<times> 's"
  cudaEventCreate :: "'s \<Rightarrow> (cudaError_t \<times> cudaEvent_t option) \<times> 's"
  cudaEventDestroy :: "cudaEvent_t option \<Rightarrow> 's \<Rightarrow> cudaError_t \<times> 's"
  cudaEventRecord :: "cudaEvent_t option \<Rightarrow> cudaStream_t \<Rightarrow> 's \<Rightarrow> cudaError_t \<times> 's"
  cudaEventSynchronize :: "cudaEvent_t option \<Rightarrow> 's \<Rightarrow> cudaError_t \<times> 's"
  cudaEventElapsedTime ::
    "cudaEvent_t option \<Rightarrow> cudaEvent_t option \<Rightarrow> 's \<Rightarrow> (cudaError_t \<times> real) \<times> 's"
  cudaMalloc :: "size_t \<Rightarrow> 's \<Rightarrow> (cudaError_t \<times> voidp) \<times> 's"
  cudaMallocHost :: "size_t \<Rightarrow> 's \<Rightarrow> (cudaError_t \<times> voidp) \<times> 's"
  cudaFree :: "voidp \<Rightarrow> 's \<Rightarrow> cudaError_t \<times> 's"
  cudaFreeHost :: "voidp \<Rightarrow> 's \<Rightarrow> cudaError_t \<times> 's"
  cudaStreamSynchronize :: "cudaStream_t \<Rightarrow> 's \<Rightarrow> cudaError_t \<times> 's"
  cudaDeviceSynchronize :: "'s \<Rightarrow> cudaError_t \<times> 's"

text \<open>The calls a context makes, in the order it makes them, with the arguments passed by value.\<close>

datatype cuda_call =
    CudaFuncGetAttributes
  | CudaGetDeviceCount
  | CudaSetDevice int
  | CudaGetDevice
  | CudaGetDeviceProperties "int option"
  | CudaEventCreate
  | CudaEventDestroy "cudaEvent_t option"
  | CudaEventRecord "cudaEvent_t option" cudaStream_t
  | CudaEventSynchronize "cudaEvent_t option"
  | CudaEventElapsedTime "cudaEvent_t option" "cudaEvent_t option"
  | CudaMalloc size_t
  | CudaMallocHost size_t
  | CudaFree voidp
  | CudaFreeHost voidp
  | CudaStreamSynchronize cudaStream_t
  | CudaDeviceSynchronize

text \<open>
  What a function of the accelerator class acts on besides the object: the runtime's state,
  the log of the calls made so far and the text written to the standard output.
\<close>

record 's world =
  rt_state :: 's
  calls :: "cuda_call list"
  stdout :: string

text \<open>One call of the runtime: run the entry point on the runtime's state and log the call.\<close>

definition call :: "cuda_call \<Rightarrow> ('s \<Rightarrow> 'a \<times> 's) \<Rightarrow> 's world \<Rightarrow> 'a \<times> 's world" where
  "call c f w = (case f (rt_state w) of (r, s') \<Rightarrow> (r, w\<lparr>rt_state := s', calls := calls w @ [c]\<rparr>))"

text \<open>
  Modelled from the spec: \<open>cuda_exception_t\<close> is declared in \<open>util/gpu_context.hpp\<close>, which is
  not among the sources; the code constructs it from the \<open>cudaError_t\<close> of the failed call
  (``failure wraps the backend's native error code'').
\<close>

datatype cuda_exception_t = cuda_exception_t (result: cudaError_t)

subsection \<open>The accelerator class (\<open>CUDA_GPU\<close>, lines 128-284)\<close>

text \<open>
  The members (lines 131-140); a member \<open>_x\<close> of the source is \<open>m_x\<close> here, and \<open>_timer[0]\<close>
  and \<open>_timer[1]\<close> are \<open>m_timer0\<close> and \<open>m_timer1\<close>. The constructor's initialiser list
  sets \<open>_stream\<close> only, so every other scalar member is \<open>None\<close> until a statement writes it.
  The three \<open>openfpm::vector_gpu<aggregate<unsigned char>>\<close> are byte sequences, empty when
  default-constructed.
\<close>

record 'p ofp_context_t =
  m_props :: "'p option"
  m_ptx_version :: "int option"
  m_stream :: cudaStream_t
  m_timer0 :: "cudaEvent_t option"
  m_timer1 :: "cudaEvent_t option"
  m_event :: "cudaEvent_t option"
  tmem :: "nat list"
  tmem2 :: "nat list"
  tmem3 :: "nat list"

text \<open>
  An out-parameter after a call: the value the runtime wrote, or what the variable held
  before when the runtime wrote nothing.
\<close>

definition written :: "'a option \<Rightarrow> 'a option \<Rightarrow> 'a option" where
  "written old r = (case r of None \<Rightarrow> old | Some v \<Rightarrow> Some v)"

text \<open>
  An \<open>int\<close> of the source is an integer from \<open>INT_MIN\<close> to \<open>INT_MAX\<close> (32 bits). \<open>a % b\<close> on
  two \<open>int\<close> truncates towards zero: it is \<open>smod\<close>, not \<open>mod\<close>. It is undefined when \<open>b\<close> is
  \<open>0\<close> and when the quotient does not fit an \<open>int\<close>, which is the one case
  \<open>INT_MIN % -1\<close>; \<open>None\<close> is ``undefined''. Everywhere else the remainder is an \<open>int\<close>
  again.
\<close>

definition INT_MIN :: int where
  "INT_MIN = - 2147483648"

definition c_rem :: "int \<Rightarrow> int \<Rightarrow> int option" where
  "c_rem a b = (if b = 0 \<or> (a = INT_MIN \<and> b = - 1) then None else Some (a smod b))"

text \<open>
  \<open>init\<close> (lines 144-174). \<open>nvcc\<close> tells whether \<open>__NVCC__\<close> is defined in the build. The
  \<open>cudaError_t\<close> of every call but \<open>cudaFuncGetAttributes\<close> is dropped, as the code drops it.
  The result is \<open>None\<close> when the behaviour of the run is undefined, which is when
  \<open>dev_num % num_dev\<close> at line 164 is; otherwise it is the exception thrown or the object,
  and the world after the run.
\<close>

definition init_gpu ::
  "bool \<Rightarrow> ('s, 'p) cuda_runtime \<Rightarrow> int \<Rightarrow> gpu_context_opt \<Rightarrow> 'p ofp_context_t \<Rightarrow> 's world
    \<Rightarrow> ((cuda_exception_t + 'p ofp_context_t) \<times> 's world) option" where
  "init_gpu nvcc rt dev_num opt this w =
    (case (if nvcc then
             (case call CudaFuncGetAttributes (cudaFuncGetAttributes rt) w of
                ((res, ptxVersion), w') \<Rightarrow>
                  if cudaSuccess \<noteq> res then (Inl (cuda_exception_t res), w')
                  else (Inr (this\<lparr>m_ptx_version := Some ptxVersion\<rparr>), w'))
           else (Inr (this\<lparr>m_ptx_version := Some 60\<rparr>), w)) of
       (Inl e, w1) \<Rightarrow> Some (Inl e, w1)
     | (Inr this1, w1) \<Rightarrow>
         (case call CudaGetDeviceCount (cudaGetDeviceCount rt) w1 of
            ((_, num_dev), w2) \<Rightarrow>
              if num_dev = 0 then Some (Inr this1, w2)
              else
                (case (if opt \<noteq> dummy
                       then (case c_rem dev_num num_dev of
                               None \<Rightarrow> None
                             | Some d \<Rightarrow>
                                 Some (snd (call (CudaSetDevice d) (cudaSetDevice rt d) w2)))
                       else Some w2) of
                   None \<Rightarrow> None
                 | Some w3 \<Rightarrow>
                (case call CudaGetDevice (cudaGetDevice rt) w3 of
                   ((_, ord), w4) \<Rightarrow>
                (case call (CudaGetDeviceProperties ord) (cudaGetDeviceProperties rt ord) w4 of
                   ((_, p), w5) \<Rightarrow>
                (case call CudaEventCreate (cudaEventCreate rt) w5 of
                   ((_, t0), w6) \<Rightarrow>
                (case call CudaEventCreate (cudaEventCreate rt) w6 of
                   ((_, t1), w7) \<Rightarrow>
                (case call CudaEventCreate (cudaEventCreate rt) w7 of
                   ((_, ev), w8) \<Rightarrow>
                     Some (Inr (this1\<lparr>m_props := written (m_props this1) p,
                                       m_timer0 := written (m_timer0 this1) t0,
                                       m_timer1 := written (m_timer1 this1) t1,
                                       m_event := written (m_event this1) ev\<rparr>), w8)))))))))"

text \<open>
  The constructor (lines 184-192). \<open>device_prop_string\<close> is declared in
  \<open>util/gpu_context.hpp\<close>, which is not among the sources: it is a parameter. An exception
  that leaves \<open>init\<close> leaves the constructor, and no object exists then; a run of \<open>init\<close>
  whose behaviour is undefined makes the constructor's undefined. The parameter \<open>stream_\<close>
  of the source is \<open>stream0\<close> here.
\<close>

definition ofp_context_t_gpu ::
  "bool \<Rightarrow> ('s, 'p) cuda_runtime \<Rightarrow> ('p option \<Rightarrow> string) \<Rightarrow> gpu_context_opt \<Rightarrow> int
    \<Rightarrow> cudaStream_t \<Rightarrow> 's world
    \<Rightarrow> ((cuda_exception_t + 'p ofp_context_t) \<times> 's world) option" where
  "ofp_context_t_gpu nvcc rt device_prop_string opt dev_num stream0 w =
    (case init_gpu nvcc rt dev_num opt
            \<lparr>m_props = None, m_ptx_version = None, m_stream = stream0, m_timer0 = None,
             m_timer1 = None, m_event = None, tmem = [], tmem2 = [], tmem3 = []\<rparr> w of
       None \<Rightarrow> None
     | Some (Inl e, w') \<Rightarrow> Some (Inl e, w')
     | Some (Inr this, w') \<Rightarrow>
         if opt = print_props
         then Some (Inr this,
                    w'\<lparr>stdout := stdout w' @ device_prop_string (m_props this) @ endl\<rparr>)
         else Some (Inr this, w'))"


text \<open>\<open>props\<close>, \<open>ptx_version\<close> and \<open>stream\<close> (lines 201-203).\<close>

definition props_gpu :: "'p ofp_context_t \<Rightarrow> 'p option" where
  "props_gpu this = m_props this"

definition ptx_version_gpu :: "'p ofp_context_t \<Rightarrow> int option" where
  "ptx_version_gpu this = m_ptx_version this"

definition stream_gpu :: "'p ofp_context_t \<Rightarrow> cudaStream_t" where
  "stream_gpu this = m_stream this"

text \<open>\<open>alloc\<close> (lines 206-215). A thrown \<open>cuda_exception_t\<close> is the left summand.\<close>

definition alloc_gpu ::
  "('s, 'p) cuda_runtime \<Rightarrow> size_t \<Rightarrow> memory_space_t \<Rightarrow> 's world
    \<Rightarrow> (cuda_exception_t + voidp) \<times> 's world" where
  "alloc_gpu rt sz space w =
    (if sz \<noteq> 0 then
       (case (if memory_space_device = space
              then call (CudaMalloc sz) (cudaMalloc rt sz) w
              else call (CudaMallocHost sz) (cudaMallocHost rt sz) w) of
          ((res, q), w') \<Rightarrow>
            if cudaSuccess \<noteq> res then (Inl (cuda_exception_t res), w') else (Inr q, w'))
     else (Inr nullptr, w))"

text \<open>\<open>free\<close> (lines 217-224).\<close>

definition free_gpu ::
  "('s, 'p) cuda_runtime \<Rightarrow> voidp \<Rightarrow> memory_space_t \<Rightarrow> 's world
    \<Rightarrow> (cuda_exception_t + unit) \<times> 's world" where
  "free_gpu rt p space w =
    (if p \<noteq> nullptr then
       (case (if memory_space_device = space
              then call (CudaFree p) (cudaFree rt p) w
              else call (CudaFreeHost p) (cudaFreeHost rt p) w) of
          (res, w') \<Rightarrow>
            if cudaSuccess \<noteq> res then (Inl (cuda_exception_t res), w') else (Inr (), w'))
     else (Inr (), w))"

text \<open>\<open>synchronize\<close> (lines 226-232).\<close>

definition synchronize_gpu ::
  "('s, 'p) cuda_runtime \<Rightarrow> 'p ofp_context_t \<Rightarrow> 's world \<Rightarrow> (cuda_exception_t + unit) \<times> 's world" where
  "synchronize_gpu rt this w =
    (case (if m_stream this \<noteq> 0
           then call (CudaStreamSynchronize (m_stream this))
                  (cudaStreamSynchronize rt (m_stream this)) w
           else call CudaDeviceSynchronize (cudaDeviceSynchronize rt) w) of
       (res, w') \<Rightarrow>
         if cudaSuccess \<noteq> res then (Inl (cuda_exception_t res), w') else (Inr (), w'))"

text \<open>\<open>event\<close> (lines 234-237).\<close>

definition event_gpu :: "'p ofp_context_t \<Rightarrow> cudaEvent_t option" where
  "event_gpu this = m_event this"

text \<open>\<open>timer_begin\<close> (lines 239-242).\<close>

definition timer_begin_gpu :: "('s, 'p) cuda_runtime \<Rightarrow> 'p ofp_context_t \<Rightarrow> 's world \<Rightarrow> 's world" where
  "timer_begin_gpu rt this w =
    snd (call (CudaEventRecord (m_timer0 this) (m_stream this))
           (cudaEventRecord rt (m_timer0 this) (m_stream this)) w)"

text \<open>
  \<open>timer_end\<close> (lines 244-251). \<open>ms / 1.0e3\<close> converts the \<open>float\<close> to \<open>double\<close>, which is
  exact, and divides in \<open>double\<close>: the quotient of the reals, rounded to a \<open>double\<close>. The
  rounding is the platform's and is the parameter \<open>to_double\<close>.
\<close>

definition timer_end_gpu ::
  "(real \<Rightarrow> real) \<Rightarrow> ('s, 'p) cuda_runtime \<Rightarrow> 'p ofp_context_t \<Rightarrow> 's world \<Rightarrow> real \<times> 's world" where
  "timer_end_gpu to_double rt this w =
    (case call (CudaEventElapsedTime (m_timer0 this) (m_timer1 this))
            (cudaEventElapsedTime rt (m_timer0 this) (m_timer1 this))
            (snd (call (CudaEventSynchronize (m_timer1 this))
                    (cudaEventSynchronize rt (m_timer1 this))
                    (snd (call (CudaEventRecord (m_timer1 this) (m_stream this))
                            (cudaEventRecord rt (m_timer1 this) (m_stream this)) w)))) of
       ((_, ms), w') \<Rightarrow> (to_double (ms / 1000), w'))"

text \<open>\<open>getDevice\<close> (lines 253-260): \<open>dev\<close> is \<open>0\<close> before the call.\<close>

definition getDevice_gpu :: "('s, 'p) cuda_runtime \<Rightarrow> 's world \<Rightarrow> int \<times> 's world" where
  "getDevice_gpu rt w =
    (case call CudaGetDevice (cudaGetDevice rt) w of
       ((_, dev), w') \<Rightarrow> (case dev of None \<Rightarrow> (0, w') | Some d \<Rightarrow> (d, w')))"

text \<open>\<open>getNDevice\<close> (lines 262-268).\<close>

definition getNDevice_gpu :: "('s, 'p) cuda_runtime \<Rightarrow> 's world \<Rightarrow> int \<times> 's world" where
  "getNDevice_gpu rt w =
    (case call CudaGetDeviceCount (cudaGetDeviceCount rt) w of ((_, num_dev), w') \<Rightarrow> (num_dev, w'))"

text \<open>
  \<open>getTemporalCUB\<close>, \<open>getTemporalCUB2\<close> and \<open>getTemporalCUB3\<close> (lines 270-283) return references
  to members: reading through the reference reads the member of the object as it is then.
\<close>

definition getTemporalCUB :: "'p ofp_context_t \<Rightarrow> nat list" where
  "getTemporalCUB this = tmem this"

definition getTemporalCUB2 :: "'p ofp_context_t \<Rightarrow> nat list" where
  "getTemporalCUB2 this = tmem2 this"

definition getTemporalCUB3 :: "'p ofp_context_t \<Rightarrow> nat list" where
  "getTemporalCUB3 this = tmem3 this"

subsection \<open>The CPU stub (\<open>CUDA_ON_CPU\<close>, lines 26-106)\<close>

text \<open>
  The members (lines 30-32): a \<open>std::string\<close> and one byte vector. The stub calls no runtime;
  all a function of it can act on is the standard output, which every function below takes
  and returns. \<open>not_implemented file line\<close> is the text of
  \<open>std::cout << __FILE__ << ":" << __LINE__ << " Not implemented" << std::endl\<close>; the value of
  \<open>__FILE__\<close> depends on the build and is a parameter, the line is the one of the source.
\<close>

record ofp_context_t_cpu =
  m_props_cpu :: string
  tmem_cpu :: "nat list"

definition not_implemented :: "string \<Rightarrow> string \<Rightarrow> string" where
  "not_implemented file line = file @ '':'' @ line @ '' Not implemented'' @ endl"

text \<open>\<open>alloc\<close> (lines 68-72); \<open>space\<close> is an \<open>int\<close> here.\<close>

definition alloc_cpu :: "string \<Rightarrow> size_t \<Rightarrow> int \<Rightarrow> string \<Rightarrow> voidp \<times> string" where
  "alloc_cpu file sz space out = (nullptr, out @ not_implemented file ''70'')"

text \<open>\<open>free\<close> (lines 74-77).\<close>

definition free_cpu :: "string \<Rightarrow> voidp \<Rightarrow> int \<Rightarrow> string \<Rightarrow> string" where
  "free_cpu file p space out = out @ not_implemented file ''76''"

text \<open>
  The constructor and the destructor (lines 45-49): both bodies are empty. The members are
  default-constructed.
\<close>

definition ofp_context_t_cpu ::
  "gpu_context_opt \<Rightarrow> int \<Rightarrow> int \<Rightarrow> string \<Rightarrow> ofp_context_t_cpu \<times> string" where
  "ofp_context_t_cpu opt dev_num stream0 out = (\<lparr>m_props_cpu = [], tmem_cpu = []\<rparr>, out)"

definition destructor_cpu :: "ofp_context_t_cpu \<Rightarrow> string \<Rightarrow> string" where
  "destructor_cpu this out = out"

text \<open>\<open>props\<close> and \<open>ptx_version\<close> (lines 51-59): neither writes to \<open>std::cout\<close>.\<close>

definition props_cpu :: "ofp_context_t_cpu \<Rightarrow> string \<Rightarrow> string \<times> string" where
  "props_cpu this out = (m_props_cpu this, out)"

definition ptx_version_cpu :: "string \<Rightarrow> int \<times> string" where
  "ptx_version_cpu out = (0, out)"

text \<open>\<open>stream\<close> (lines 61-65).\<close>

definition stream_cpu :: "string \<Rightarrow> string \<Rightarrow> int \<times> string" where
  "stream_cpu file out = (0, out @ not_implemented file ''63'')"

text \<open>\<open>synchronize\<close> (lines 79-82).\<close>

definition synchronize_cpu :: "string \<Rightarrow> string \<Rightarrow> string" where
  "synchronize_cpu file out = out @ not_implemented file ''81''"

text \<open>\<open>event\<close> (lines 84-88).\<close>

definition event_cpu :: "string \<Rightarrow> string \<Rightarrow> int \<times> string" where
  "event_cpu file out = (0, out @ not_implemented file ''86'')"

text \<open>\<open>timer_begin\<close> (lines 90-93).\<close>

definition timer_begin_cpu :: "string \<Rightarrow> string \<Rightarrow> string" where
  "timer_begin_cpu file out = out @ not_implemented file ''92''"

text \<open>\<open>timer_end\<close> (lines 95-99).\<close>

definition timer_end_cpu :: "string \<Rightarrow> string \<Rightarrow> real \<times> string" where
  "timer_end_cpu file out = (0, out @ not_implemented file ''97'')"

text \<open>\<open>getDevice\<close> (lines 101-105).\<close>

definition getDevice_cpu :: "string \<Rightarrow> string \<Rightarrow> int \<times> string" where
  "getDevice_cpu file out = (0, out @ not_implemented file ''103'')"

subsection \<open>The class of a build without \<open>CUDA_ON_CPU\<close> and \<open>CUDA_GPU\<close> (lines 302-306)\<close>

text \<open>A struct with no member and a constructor whose body is empty.\<close>

definition ofp_context_t_disabled :: "gpu_context_opt \<Rightarrow> int \<Rightarrow> string \<Rightarrow> unit \<times> string" where
  "ofp_context_t_disabled opt dev_num out = ((), out)"

subsection \<open>What each class declares\<close>

text \<open>
  The three classes do not declare the same members. The tables below are read off the three
  declarations: for each build, the public member functions in the order of the source
  (constructor and destructor left out), and the names of the scratch vectors among the data
  members.
\<close>

datatype backend = RealAccelerator | CpuStub | Disabled

datatype capability =
    Props | PtxVersion | Stream | Alloc | Free | Synchronize | Event | TimerBegin | TimerEnd
  | GetDevice | GetNDevice | TemporalCUB | TemporalCUB2 | TemporalCUB3

text \<open>
  \<open>RealAccelerator\<close>: lines 201-283. \<open>CpuStub\<close>: lines 51-105; the class ends at line 106 with
  no \<open>getNDevice\<close> and no \<open>getTemporalCUB\<close>. \<open>Disabled\<close>: lines 302-306.
\<close>

fun member_functions :: "backend \<Rightarrow> capability list" where
  "member_functions RealAccelerator =
    [Props, PtxVersion, Stream, Alloc, Free, Synchronize, Event, TimerBegin, TimerEnd,
     GetDevice, GetNDevice, TemporalCUB, TemporalCUB2, TemporalCUB3]"
| "member_functions CpuStub =
    [Props, PtxVersion, Stream, Alloc, Free, Synchronize, Event, TimerBegin, TimerEnd,
     GetDevice]"
| "member_functions Disabled = []"

text \<open>\<open>RealAccelerator\<close>: lines 138-140. \<open>CpuStub\<close>: line 32. \<open>Disabled\<close>: none.\<close>

fun scratch_members :: "backend \<Rightarrow> string list" where
  "scratch_members RealAccelerator = [''tmem'', ''tmem2'', ''tmem3'']"
| "scratch_members CpuStub = [''tmem'']"
| "scratch_members Disabled = []"

section \<open>The emulation's variables: \<open>src/util/cudify/cudify_vars.cpp\<close>\<close>

text \<open>
  The file defines variables and no function. \<open>threadIdx\<close>, \<open>blockIdx\<close>, \<open>blockDim\<close>,
  \<open>gridDim\<close> and the \<open>tid_x\<close>, \<open>tid_y\<close>, \<open>tid_z\<close> arrays exist only under
  \<open>CUDIFY_USE_SEQUENTIAL\<close> or \<open>CUDIFY_USE_OPENMP\<close>, and the stacks and contexts only under
  \<open>HAVE_BOOST_CONTEXT\<close>; their types are declared in headers that are not among the sources.
  The record holds the variables every build has (lines 28-33), and \<open>cudify_vars_initial\<close>
  their values when the program starts: a variable of static or thread storage duration
  with no initialiser is zero.
\<close>

record cudify_vars =
  init_wrappers_call :: bool
  vct_atomic_add :: int
  vct_atomic_rem :: int
  n_workers :: nat

definition cudify_vars_initial :: cudify_vars where
  "cudify_vars_initial =
    \<lparr>init_wrappers_call = False, vct_atomic_add = 0, vct_atomic_rem = 0, n_workers = 1\<rparr>"

text \<open>
  Modelled from the spec: the scheduler that partitions the blocks of a launch among the
  workers is not among the sources. The spec (4.2, step 1): ``Partition the set of blocks
  (\<open>gridDim.x*gridDim.y*gridDim.z\<close> of them) across up to \<open>WorkerCount\<close> workers; each worker
  processes a disjoint subset of blocks, sequentially within itself.'' A partition is given
  by the worker each block goes to (\<open>worker_of\<close>, on the blocks \<open>0 ..< n_blocks\<close>), which makes
  the subsets of two workers disjoint; it is across up to \<open>worker_count\<close> workers when no more
  than that many workers get a block.
\<close>

definition partitions_across :: "nat \<Rightarrow> nat \<Rightarrow> (nat \<Rightarrow> nat) \<Rightarrow> bool" where
  "partitions_across worker_count n_blocks worker_of =
    (card (worker_of ` {0..<n_blocks}) \<le> worker_count)"

section \<open>A simulated runtime\<close>

text \<open>
  A runtime to run the embedding on: \<open>n_dev\<close> devices, \<open>cudaFuncGetAttributes\<close> answering
  \<open>attr_res\<close>, handles and addresses drawn from a counter (the state), an allocation of more
  than 1024 bytes failing with error 2, and every timed interval 2500 ms long. The error
  numbers are those of the runtime's headers (2 \<open>cudaErrorMemoryAllocation\<close>,
  1 \<open>cudaErrorInvalidValue\<close>, 100 \<open>cudaErrorNoDevice\<close>, 101 \<open>cudaErrorInvalidDevice\<close>,
  400 \<open>cudaErrorInvalidResourceHandle\<close>).
\<close>

definition sim_rt :: "int \<Rightarrow> cudaError_t \<Rightarrow> (nat, string) cuda_runtime" where
  "sim_rt n_dev attr_res =
    \<lparr>cudaFuncGetAttributes = (\<lambda>s. ((attr_res, 75), s)),
     cudaGetDeviceCount = (\<lambda>s. ((if n_dev = 0 then 100 else 0, n_dev), s)),
     cudaSetDevice = (\<lambda>d s. (if 0 \<le> d \<and> d < n_dev then 0 else 101, s)),
     cudaGetDevice = (\<lambda>s. ((0, Some 0), s)),
     cudaGetDeviceProperties = (\<lambda>ord s. ((0, Some ''simulated device''), s)),
     cudaEventCreate = (\<lambda>s. ((0, Some (Suc s)), Suc s)),
     cudaEventDestroy = (\<lambda>e s. (if e = None then 400 else 0, s)),
     cudaEventRecord = (\<lambda>e st s. (if e = None then 400 else 0, s)),
     cudaEventSynchronize = (\<lambda>e s. (if e = None then 400 else 0, s)),
     cudaEventElapsedTime = (\<lambda>a b s. ((if a = None \<or> b = None then 400 else 0, 2500), s)),
     cudaMalloc = (\<lambda>sz s. if sz \<le> 1024 then ((0, 4096 + s), s + sz) else ((2, 0), s)),
     cudaMallocHost = (\<lambda>sz s. if sz \<le> 1024 then ((0, 8192 + s), s + sz) else ((2, 0), s)),
     cudaFree = (\<lambda>p s. (if p < 4096 then 1 else 0, s)),
     cudaFreeHost = (\<lambda>p s. (if p < 8192 then 1 else 0, s)),
     cudaStreamSynchronize = (\<lambda>st s. (0, s)),
     cudaDeviceSynchronize = (\<lambda>s. (0, s))\<rparr>"

text \<open>A \<open>device_prop_string\<close> to go with it.\<close>

definition sim_prop_string :: "string option \<Rightarrow> string" where
  "sim_prop_string p = (case p of None \<Rightarrow> ''(indeterminate)'' | Some n \<Rightarrow> n)"

text \<open>The world before anything ran: the counter at 0, no call made, nothing written.\<close>

definition w0 :: "nat world" where
  "w0 = \<lparr>rt_state = 0, calls = [], stdout = []\<rparr>"

section \<open>Properties\<close>

subsection \<open>Allocation\<close>

text \<open>
  Claim C1. On the accelerator class, \<open>alloc\<close> of size \<open>0\<close> returns the null pointer, calls
  nothing and throws nothing: the world is as before. With a size other than \<open>0\<close> it calls
  \<open>cudaMalloc\<close> once when the space is \<open>memory_space_device\<close> and \<open>cudaMallocHost\<close> once
  otherwise, returns the pointer of the call when the call answers \<open>cudaSuccess\<close> and throws
  a \<open>cuda_exception_t\<close> holding the call's error otherwise. On the CPU stub, \<open>alloc\<close> has no
  exception to throw: whatever the size and the space, it returns the null pointer and
  appends the (non-empty) line \<open><file>:70 Not implemented\<close> to the standard output.
\<close>

theorem alloc_contract:
  fixes rt :: "('s, 'p) cuda_runtime" and w :: "'s world"
  shows
  "alloc_gpu rt 0 space w = (Inr nullptr, w)
   \<and> (sz \<noteq> 0 \<longrightarrow> cudaMalloc rt sz (rt_state w) = ((res1, q1), s1) \<longrightarrow>
        alloc_gpu rt sz memory_space_device w =
          (if res1 = cudaSuccess then Inr q1 else Inl (cuda_exception_t res1),
           w\<lparr>rt_state := s1, calls := calls w @ [CudaMalloc sz]\<rparr>))
   \<and> (sz \<noteq> 0 \<longrightarrow> space \<noteq> memory_space_device \<longrightarrow>
        cudaMallocHost rt sz (rt_state w) = ((res2, q2), s2) \<longrightarrow>
        alloc_gpu rt sz space w =
          (if res2 = cudaSuccess then Inr q2 else Inl (cuda_exception_t res2),
           w\<lparr>rt_state := s2, calls := calls w @ [CudaMallocHost sz]\<rparr>))
   \<and> alloc_cpu file sz ispace out = (nullptr, out @ not_implemented file ''70'')
   \<and> not_implemented file ''70'' \<noteq> []"
  by (auto simp add: alloc_gpu_def alloc_cpu_def call_def not_implemented_def endl_def)

text \<open>
  On the simulated runtime: 16 bytes in either space, a request too large for the device,
  and the stub.
\<close>

theorem alloc_contract_witness:
  "alloc_gpu (sim_rt 1 0) 0 memory_space_device w0 = (Inr 0, w0)
   \<and> alloc_gpu (sim_rt 1 0) 16 memory_space_device w0
       = (Inr 4096, \<lparr>rt_state = 16, calls = [CudaMalloc 16], stdout = []\<rparr>)
   \<and> alloc_gpu (sim_rt 1 0) 16 memory_space_host w0
       = (Inr 8192, \<lparr>rt_state = 16, calls = [CudaMallocHost 16], stdout = []\<rparr>)
   \<and> alloc_gpu (sim_rt 1 0) 2000 memory_space_device w0
       = (Inl (cuda_exception_t 2), \<lparr>rt_state = 0, calls = [CudaMalloc 2000], stdout = []\<rparr>)
   \<and> alloc_cpu ''ofp_context.hpp'' 16 0 [] = (0, ''ofp_context.hpp:70 Not implemented'' @ endl)"
  using
    alloc_contract [of "sim_rt 1 0" memory_space_device w0 16 0 4096 16 0 8192 16
      "''ofp_context.hpp''" 0 "[]"]
    alloc_contract [of "sim_rt 1 0" memory_space_host w0 16 0 4096 16 0 8192 16
      "''ofp_context.hpp''" 0 "[]"]
    alloc_contract [of "sim_rt 1 0" memory_space_device w0 2000 2 0 0 2 0 0
      "''ofp_context.hpp''" 0 "[]"]
  by (simp add: sim_rt_def w0_def nullptr_def cudaSuccess_def not_implemented_def)

subsection \<open>Release\<close>

text \<open>
  Claim C6, as stated, fails: on the CPU stub \<open>free\<close> of the null pointer is no no-op, it
  appends its diagnostic line to the standard output, here empty before the call; and the
  class of a build without \<open>CUDA_ON_CPU\<close> and \<open>CUDA_GPU\<close> declares no \<open>free\<close>.
\<close>

theorem stub_free_prints:
  "free_cpu ''ofp_context.hpp'' nullptr 0 [] = ''ofp_context.hpp:76 Not implemented'' @ endl
   \<and> free_cpu ''ofp_context.hpp'' nullptr 0 [] \<noteq> []
   \<and> Free \<notin> set (member_functions Disabled)"
  by (simp add: free_cpu_def not_implemented_def)

text \<open>
  Claim C6, amended. On the accelerator class, \<open>free\<close> of the null pointer is a no-op: it
  calls nothing and throws nothing, and the world is as before. \<open>free\<close> of a pointer other
  than null calls \<open>cudaFree\<close> once when the space is \<open>memory_space_device\<close> and \<open>cudaFreeHost\<close>
  once otherwise, and throws a \<open>cuda_exception_t\<close> holding the call's error unless the call
  answers \<open>cudaSuccess\<close>. On the CPU stub, which has no runtime to release to, \<open>free\<close>
  releases nothing, whatever the pointer, null or not: all it does is append its
  (non-empty) diagnostic line to the standard output. The class of a build without
  \<open>CUDA_ON_CPU\<close> and \<open>CUDA_GPU\<close> has no \<open>free\<close>.
\<close>

theorem free_contract:
  fixes rt :: "('s, 'p) cuda_runtime" and w :: "'s world"
  shows
  "free_gpu rt nullptr space w = (Inr (), w)
   \<and> (p \<noteq> nullptr \<longrightarrow> cudaFree rt p (rt_state w) = (res1, s1) \<longrightarrow>
        free_gpu rt p memory_space_device w =
          (if res1 = cudaSuccess then Inr () else Inl (cuda_exception_t res1),
           w\<lparr>rt_state := s1, calls := calls w @ [CudaFree p]\<rparr>))
   \<and> (p \<noteq> nullptr \<longrightarrow> space \<noteq> memory_space_device \<longrightarrow>
        cudaFreeHost rt p (rt_state w) = (res2, s2) \<longrightarrow>
        free_gpu rt p space w =
          (if res2 = cudaSuccess then Inr () else Inl (cuda_exception_t res2),
           w\<lparr>rt_state := s2, calls := calls w @ [CudaFreeHost p]\<rparr>))
   \<and> free_cpu file q ispace out = out @ not_implemented file ''76''
   \<and> not_implemented file ''76'' \<noteq> []
   \<and> Free \<notin> set (member_functions Disabled)"
  by (auto simp add: free_gpu_def free_cpu_def call_def not_implemented_def endl_def)

text \<open>
  On the simulated runtime: a device pointer, a host pointer, and a pointer the device
  never handed out; on the stub, the null pointer and another.
\<close>

theorem free_contract_witness:
  "free_gpu (sim_rt 1 0) 0 memory_space_host w0 = (Inr (), w0)
   \<and> free_gpu (sim_rt 1 0) 4096 memory_space_device w0
       = (Inr (), \<lparr>rt_state = 0, calls = [CudaFree 4096], stdout = []\<rparr>)
   \<and> free_gpu (sim_rt 1 0) 8192 memory_space_host w0
       = (Inr (), \<lparr>rt_state = 0, calls = [CudaFreeHost 8192], stdout = []\<rparr>)
   \<and> free_gpu (sim_rt 1 0) 7 memory_space_device w0
       = (Inl (cuda_exception_t 1), \<lparr>rt_state = 0, calls = [CudaFree 7], stdout = []\<rparr>)
   \<and> free_cpu ''ofp_context.hpp'' 0 0 [] = ''ofp_context.hpp:76 Not implemented'' @ endl
   \<and> free_cpu ''ofp_context.hpp'' 4096 0 [] = ''ofp_context.hpp:76 Not implemented'' @ endl"
  using
    free_contract [of "sim_rt 1 0" memory_space_host w0 4096 0 0 0 0 "''ofp_context.hpp''" 0 0 "[]"]
    free_contract [of "sim_rt 1 0" memory_space_host w0 8192 0 0 0 0 "''ofp_context.hpp''" 4096 0 "[]"]
    free_contract [of "sim_rt 1 0" memory_space_device w0 7 1 0 1 0 "''ofp_context.hpp''" 0 0 "[]"]
  by (simp add: sim_rt_def w0_def nullptr_def cudaSuccess_def not_implemented_def)

subsection \<open>The CPU stub\<close>

text \<open>
  Claim C2, as stated, fails: \<open>ptx_version\<close> and \<open>props\<close> of the CPU stub write nothing.
  After them the standard output is what it was, here empty.
\<close>

theorem stub_silent_queries:
  "snd (ptx_version_cpu []) = []
   \<and> snd (props_cpu (fst (ofp_context_t_cpu no_print_props 0 0 [])) []) = []"
  by (simp add: ptx_version_cpu_def props_cpu_def)

text \<open>
  Claim C2, amended. No function of the CPU stub has an exception to throw, and each
  returns zero, null or nothing. \<open>alloc\<close>, \<open>free\<close>, \<open>synchronize\<close>, \<open>event\<close>, \<open>timer_begin\<close>,
  \<open>timer_end\<close>, \<open>getDevice\<close> and \<open>stream\<close> append one non-empty line, \<open><file>:<line> Not
  implemented\<close>, to the standard output; \<open>props\<close> (the empty string of a constructed object) and
  \<open>ptx_version\<close> leave the standard output as it is.
\<close>

theorem stub_operations:
  "alloc_cpu file sz space out = (nullptr, out @ not_implemented file ''70'')
   \<and> free_cpu file p space out = out @ not_implemented file ''76''
   \<and> synchronize_cpu file out = out @ not_implemented file ''81''
   \<and> event_cpu file out = (0, out @ not_implemented file ''86'')
   \<and> timer_begin_cpu file out = out @ not_implemented file ''92''
   \<and> timer_end_cpu file out = (0, out @ not_implemented file ''97'')
   \<and> getDevice_cpu file out = (0, out @ not_implemented file ''103'')
   \<and> stream_cpu file out = (0, out @ not_implemented file ''63'')
   \<and> props_cpu (fst (ofp_context_t_cpu opt dev_num stream0 out0)) out = ([], out)
   \<and> ptx_version_cpu out = (0, out)
   \<and> not_implemented file line \<noteq> []"
  by (simp add: alloc_cpu_def free_cpu_def synchronize_cpu_def event_cpu_def
      timer_begin_cpu_def timer_end_cpu_def getDevice_cpu_def stream_cpu_def props_cpu_def
      ptx_version_cpu_def ofp_context_t_cpu_def not_implemented_def endl_def)

subsection \<open>Construction\<close>

lemma written_None: "written None r = r"
  by (cases r) (simp_all add: written_def)

text \<open>
  Where \<open>%\<close> is defined it is the truncating remainder; with a divisor other than \<open>0\<close> it is
  undefined at \<open>INT_MIN % -1\<close> only.
\<close>

lemma c_rem_defined:
  "b \<noteq> 0 \<Longrightarrow> \<not> (a = INT_MIN \<and> b = - 1) \<Longrightarrow> c_rem a b = Some (a smod b)"
  by (simp add: c_rem_def)

lemma c_rem_undefined: "b \<noteq> 0 \<Longrightarrow> c_rem a b = None \<Longrightarrow> a = INT_MIN \<and> b = - 1"
  by (simp add: c_rem_def split: if_splits)

text \<open>\<open>init\<close>, run step by step on the answers of the runtime.\<close>

lemma init_throws:
  assumes attr: "cudaFuncGetAttributes rt (rt_state w) = ((res, ptx), sa)"
    and bad: "res \<noteq> cudaSuccess"
  shows "init_gpu True rt dev_num opt this w =
    Some (Inl (cuda_exception_t res),
          w\<lparr>rt_state := sa, calls := calls w @ [CudaFuncGetAttributes]\<rparr>)"
  using assms by (auto simp add: init_gpu_def call_def)

lemma init_no_device:
  assumes attr: "cudaFuncGetAttributes rt (rt_state w) = ((res, ptx), sa)"
    and ok: "nvcc \<longrightarrow> res = cudaSuccess"
    and cnt: "cudaGetDeviceCount rt (if nvcc then sa else rt_state w) = ((e, 0), s2)"
  shows "init_gpu nvcc rt dev_num opt this w =
    Some (Inr (this\<lparr>m_ptx_version := Some (if nvcc then ptx else 60)\<rparr>),
          w\<lparr>rt_state := s2,
            calls := calls w @ (if nvcc then [CudaFuncGetAttributes] else [])
              @ [CudaGetDeviceCount]\<rparr>)"
  using attr ok cnt by (cases nvcc) (simp_all add: init_gpu_def call_def)

lemma init_undefined:
  assumes attr: "cudaFuncGetAttributes rt (rt_state w) = ((res, ptx), sa)"
    and ok: "nvcc \<longrightarrow> res = cudaSuccess"
    and cnt: "cudaGetDeviceCount rt (if nvcc then sa else rt_state w) = ((e, num_dev), s2)"
    and dev: "num_dev \<noteq> 0"
    and bind: "opt \<noteq> dummy"
    and rem: "c_rem dev_num num_dev = None"
  shows "init_gpu nvcc rt dev_num opt this w = None"
  using assms by (cases nvcc) (simp_all add: init_gpu_def call_def)

lemma init_with_devices:
  assumes attr: "cudaFuncGetAttributes rt (rt_state w) = ((res, ptx), sa)"
    and ok: "nvcc \<longrightarrow> res = cudaSuccess"
    and cnt: "cudaGetDeviceCount rt (if nvcc then sa else rt_state w) = ((e, num_dev), s2)"
    and dev: "num_dev \<noteq> 0"
    and rem: "opt \<noteq> dummy \<longrightarrow> c_rem dev_num num_dev = Some d"
    and sel: "cudaSetDevice rt d s2 = (e3, s3)"
    and cur: "cudaGetDevice rt (if opt \<noteq> dummy then s3 else s2) = ((e4, ord), s4)"
    and prp: "cudaGetDeviceProperties rt ord s4 = ((e5, p), s5)"
    and ev0: "cudaEventCreate rt s5 = ((e6, t0), s6)"
    and ev1: "cudaEventCreate rt s6 = ((e7, t1), s7)"
    and ev2: "cudaEventCreate rt s7 = ((e8, ev), s8)"
  shows "init_gpu nvcc rt dev_num opt this w =
    Some (Inr (this\<lparr>m_ptx_version := Some (if nvcc then ptx else 60),
                    m_props := written (m_props this) p,
                    m_timer0 := written (m_timer0 this) t0,
                    m_timer1 := written (m_timer1 this) t1,
                    m_event := written (m_event this) ev\<rparr>),
          w\<lparr>rt_state := s8,
            calls := calls w @ (if nvcc then [CudaFuncGetAttributes] else [])
              @ [CudaGetDeviceCount]
              @ (if opt \<noteq> dummy then [CudaSetDevice d] else [])
              @ [CudaGetDevice, CudaGetDeviceProperties ord,
                 CudaEventCreate, CudaEventCreate, CudaEventCreate]\<rparr>)"
  using assms by (cases nvcc; cases "opt = dummy") (simp_all add: init_gpu_def call_def)

text \<open>A run of \<open>init\<close> that ends has written nothing to the standard output.\<close>

lemma init_stdout:
  assumes run: "init_gpu nvcc rt dev_num opt this w = Some (r, w1)"
  shows "stdout w1 = stdout w"
proof -
  obtain res ptx sa where attr: "cudaFuncGetAttributes rt (rt_state w) = ((res, ptx), sa)"
    by (metis prod.exhaust)
  obtain e num_dev s2 where
    cnt: "cudaGetDeviceCount rt (if nvcc then sa else rt_state w) = ((e, num_dev), s2)"
    by (metis prod.exhaust)
  show ?thesis
  proof (cases "nvcc \<and> res \<noteq> cudaSuccess")
    case True
    then show ?thesis using init_throws [OF attr, of dev_num opt this] run by auto
  next
    case False
    then have ok: "nvcc \<longrightarrow> res = cudaSuccess" by simp
    show ?thesis
    proof (cases "num_dev = 0")
      case True
      then show ?thesis using init_no_device [OF attr ok, of e s2 dev_num opt this] cnt run by auto
    next
      case dev: False
      show ?thesis
      proof (cases "opt \<noteq> dummy \<and> c_rem dev_num num_dev = None")
        case True
        then show ?thesis using init_undefined [OF attr ok cnt dev, of opt dev_num this] run by simp
      next
        case False
        then obtain d where rem: "opt \<noteq> dummy \<longrightarrow> c_rem dev_num num_dev = Some d"
          by (cases "c_rem dev_num num_dev") auto
        obtain e3 s3 where sel: "cudaSetDevice rt d s2 = (e3, s3)"
          by (metis prod.exhaust)
        obtain e4 ord s4 where
          cur: "cudaGetDevice rt (if opt \<noteq> dummy then s3 else s2) = ((e4, ord), s4)"
          by (metis prod.exhaust)
        obtain e5 p s5 where prp: "cudaGetDeviceProperties rt ord s4 = ((e5, p), s5)"
          by (metis prod.exhaust)
        obtain e6 t0 s6 where ev0: "cudaEventCreate rt s5 = ((e6, t0), s6)"
          by (metis prod.exhaust)
        obtain e7 t1 s7 where ev1: "cudaEventCreate rt s6 = ((e7, t1), s7)"
          by (metis prod.exhaust)
        obtain e8 ev s8 where ev2: "cudaEventCreate rt s7 = ((e8, ev), s8)"
          by (metis prod.exhaust)
        show ?thesis
          using init_with_devices [OF attr ok cnt dev rem sel cur prp ev0 ev1 ev2, of this] run
          by auto
      qed
    qed
  qed
qed

text \<open>The constructor on the outcomes of \<open>init\<close>.\<close>

lemma ctor_throws:
  assumes attr: "cudaFuncGetAttributes rt (rt_state w) = ((res, ptx), sa)"
    and bad: "res \<noteq> cudaSuccess"
  shows "ofp_context_t_gpu True rt dps opt dev_num stream0 w =
    Some (Inl (cuda_exception_t res),
          w\<lparr>rt_state := sa, calls := calls w @ [CudaFuncGetAttributes]\<rparr>)"
  by (simp add: ofp_context_t_gpu_def init_throws [OF attr bad])

lemma ctor_no_device:
  assumes attr: "cudaFuncGetAttributes rt (rt_state w) = ((res, ptx), sa)"
    and ok: "nvcc \<longrightarrow> res = cudaSuccess"
    and cnt: "cudaGetDeviceCount rt (if nvcc then sa else rt_state w) = ((e, 0), s2)"
  shows "ofp_context_t_gpu nvcc rt dps opt dev_num stream0 w =
    Some (Inr \<lparr>m_props = None, m_ptx_version = Some (if nvcc then ptx else 60),
               m_stream = stream0, m_timer0 = None, m_timer1 = None, m_event = None,
               tmem = [], tmem2 = [], tmem3 = []\<rparr>,
          w\<lparr>rt_state := s2,
            calls := calls w @ (if nvcc then [CudaFuncGetAttributes] else [])
              @ [CudaGetDeviceCount],
            stdout := stdout w @ (if opt = print_props then dps None @ endl else [])\<rparr>)"
  by (simp add: ofp_context_t_gpu_def init_no_device [OF attr ok cnt])

lemma ctor_with_devices:
  assumes attr: "cudaFuncGetAttributes rt (rt_state w) = ((res, ptx), sa)"
    and ok: "nvcc \<longrightarrow> res = cudaSuccess"
    and cnt: "cudaGetDeviceCount rt (if nvcc then sa else rt_state w) = ((e, num_dev), s2)"
    and dev: "num_dev \<noteq> 0"
    and rem: "opt \<noteq> dummy \<longrightarrow> c_rem dev_num num_dev = Some d"
    and sel: "cudaSetDevice rt d s2 = (e3, s3)"
    and cur: "cudaGetDevice rt (if opt \<noteq> dummy then s3 else s2) = ((e4, ord), s4)"
    and prp: "cudaGetDeviceProperties rt ord s4 = ((e5, p), s5)"
    and ev0: "cudaEventCreate rt s5 = ((e6, t0), s6)"
    and ev1: "cudaEventCreate rt s6 = ((e7, t1), s7)"
    and ev2: "cudaEventCreate rt s7 = ((e8, ev), s8)"
  shows "ofp_context_t_gpu nvcc rt dps opt dev_num stream0 w =
    Some (Inr \<lparr>m_props = p, m_ptx_version = Some (if nvcc then ptx else 60),
               m_stream = stream0, m_timer0 = t0, m_timer1 = t1, m_event = ev,
               tmem = [], tmem2 = [], tmem3 = []\<rparr>,
          w\<lparr>rt_state := s8,
            calls := calls w @ (if nvcc then [CudaFuncGetAttributes] else [])
              @ [CudaGetDeviceCount]
              @ (if opt \<noteq> dummy then [CudaSetDevice d] else [])
              @ [CudaGetDevice, CudaGetDeviceProperties ord,
                 CudaEventCreate, CudaEventCreate, CudaEventCreate],
            stdout := stdout w @ (if opt = print_props then dps p @ endl else [])\<rparr>)"
  by (simp add: ofp_context_t_gpu_def written_None
      init_with_devices [OF attr ok cnt dev rem sel cur prp ev0 ev1 ev2])

text \<open>
  Claim C7, as stated, fails: the constructors of the CPU stub and of the class of a build
  without \<open>CUDA_ON_CPU\<close> and \<open>CUDA_GPU\<close> print nothing when given \<open>print_props\<close>. After them the
  standard output is what it was, here empty.
\<close>

theorem stub_constructor_prints_nothing:
  "snd (ofp_context_t_cpu print_props 0 0 []) = []
   \<and> snd (ofp_context_t_disabled print_props 0 []) = []"
  by (simp add: ofp_context_t_cpu_def ofp_context_t_disabled_def)

text \<open>
  Claim C7, amended. On the accelerator class, a construction that returns has appended
  \<open>device_prop_string(_props)\<close> and a newline to the standard output when the option is
  \<open>print_props\<close> and has written nothing otherwise (\<open>no_print_props\<close>, \<open>dummy\<close>); a
  construction that throws has written nothing. The constructors of the other two classes
  write nothing, whatever the option.
\<close>

theorem construction_printing:
  fixes rt :: "('s, 'p) cuda_runtime" and w :: "'s world"
  shows
  "(ofp_context_t_gpu nvcc rt dps opt dev_num stream0 w = Some (Inr this, w') \<longrightarrow>
      stdout w' = stdout w @ (if opt = print_props then dps (m_props this) @ endl else []))
   \<and> (ofp_context_t_gpu nvcc rt dps opt dev_num stream0 w = Some (Inl ex, w') \<longrightarrow>
      stdout w' = stdout w)
   \<and> snd (ofp_context_t_cpu opt dev_num istream out) = out
   \<and> snd (ofp_context_t_disabled opt dev_num out) = out"
proof (cases "init_gpu nvcc rt dev_num opt
      \<lparr>m_props = None, m_ptx_version = None, m_stream = stream0, m_timer0 = None,
       m_timer1 = None, m_event = None, tmem = [], tmem2 = [], tmem3 = []\<rparr> w")
  case None
  then show ?thesis
    by (simp add: ofp_context_t_gpu_def ofp_context_t_cpu_def ofp_context_t_disabled_def)
next
  case (Some a)
  obtain r w1 where a: "a = (r, w1)" by (cases a)
  have out1: "stdout w1 = stdout w"
    using init_stdout Some a by blast
  show ?thesis
    using Some a out1
    by (cases r) (auto simp add: ofp_context_t_gpu_def ofp_context_t_cpu_def
        ofp_context_t_disabled_def)
qed

text \<open>
  On the simulated runtime with one device: \<open>print_props\<close> prints the properties of the
  device, \<open>no_print_props\<close> prints nothing, and a construction that throws prints nothing.
\<close>

theorem construction_printing_witness:
  "map_option (\<lambda>r. stdout (snd r))
      (ofp_context_t_gpu False (sim_rt 1 0) sim_prop_string print_props 0 0 w0)
     = Some (''simulated device'' @ endl)
   \<and> map_option (\<lambda>r. stdout (snd r))
      (ofp_context_t_gpu False (sim_rt 1 0) sim_prop_string no_print_props 0 0 w0)
     = Some []
   \<and> map_option (\<lambda>r. stdout (snd r))
      (ofp_context_t_gpu True (sim_rt 1 35) sim_prop_string print_props 0 0 w0)
     = Some []"
proof -
  let ?c = "\<lambda>nvcc res opt. ofp_context_t_gpu nvcc (sim_rt 1 res) sim_prop_string opt 0 0 w0"
  let ?obj = "\<lparr>m_props = Some ''simulated device'', m_ptx_version = Some 60, m_stream = 0,
             m_timer0 = Some 1, m_timer1 = Some 2, m_event = Some 3,
             tmem = [], tmem2 = [], tmem3 = []\<rparr>"
  obtain wa where a: "?c False 0 print_props = Some (Inr ?obj, wa)"
    by (simp add: ofp_context_t_gpu_def init_gpu_def call_def sim_rt_def w0_def written_def
        cudaSuccess_def c_rem_def INT_MIN_def)
  obtain wb where b: "?c False 0 no_print_props = Some (Inr ?obj, wb)"
    by (simp add: ofp_context_t_gpu_def init_gpu_def call_def sim_rt_def w0_def written_def
        cudaSuccess_def c_rem_def INT_MIN_def)
  obtain wc where c: "?c True 35 print_props = Some (Inl (cuda_exception_t 35), wc)"
    by (simp add: ofp_context_t_gpu_def init_gpu_def call_def sim_rt_def w0_def written_def
        cudaSuccess_def)
  show ?thesis
    using
      construction_printing [of False "sim_rt 1 0" sim_prop_string print_props 0 0 w0
        ?obj wa] a
      construction_printing [of False "sim_rt 1 0" sim_prop_string no_print_props 0 0 w0
        ?obj wb] b
      construction_printing [of True "sim_rt 1 35" sim_prop_string print_props 0 0 w0 _
        wc "cuda_exception_t 35"] c
    by (simp add: w0_def sim_prop_string_def)
qed

subsection \<open>Device selection\<close>

text \<open>
  Claim C4, as stated, fails. With two devices and \<open>dev_num = -1\<close> the constructor calls
  \<open>cudaSetDevice(-1)\<close>, while \<open>-1 mod 2\<close> is \<open>1\<close>: \<open>%\<close> truncates towards zero. And in a
  build with \<open>__NVCC__\<close>, on a machine with no device where \<open>cudaFuncGetAttributes\<close> fails
  (here with 100, \<open>cudaErrorNoDevice\<close>), construction throws.
\<close>

theorem construction_counterexample:
  "map_option (\<lambda>r. calls (snd r))
      (ofp_context_t_gpu False (sim_rt 2 0) sim_prop_string no_print_props (- 1) 0 w0)
     = Some [CudaGetDeviceCount, CudaSetDevice (- 1), CudaGetDevice,
             CudaGetDeviceProperties (Some 0), CudaEventCreate, CudaEventCreate,
             CudaEventCreate]
   \<and> (- 1 :: int) mod 2 = 1
   \<and> map_option fst
      (ofp_context_t_gpu True (sim_rt 0 100) sim_prop_string no_print_props 0 0 w0)
     = Some (Inl (cuda_exception_t 100))"
  by (simp add: ofp_context_t_gpu_def init_gpu_def call_def sim_rt_def w0_def written_def
      cudaSuccess_def signed_modulo_int_def c_rem_def INT_MIN_def)

text \<open>
  Claim C4, amended. In a build with \<open>__NVCC__\<close> the constructor throws when
  \<open>cudaFuncGetAttributes\<close> fails, whatever the number of devices. Otherwise, with \<open>num_dev\<close>
  the count \<open>cudaGetDeviceCount\<close> stored:
  when \<open>num_dev\<close> is not \<open>0\<close>, the option is not \<open>dummy\<close> and \<open>dev_num % num_dev\<close> is defined
  (it is not \<open>INT_MIN % -1\<close>), the constructor calls \<open>cudaSetDevice(dev_num % num_dev)\<close>
  right after the count, then reads the current device and its properties, creates the
  three events and returns;
  when \<open>num_dev\<close> is not \<open>0\<close> and the option is \<open>dummy\<close>, it makes the same calls but for
  \<open>cudaSetDevice\<close>, which it does not call, and returns;
  when \<open>num_dev\<close> is \<open>0\<close>, it makes no call after the count and returns an object that has
  its stream and its PTX version.
  \<open>dev_num % num_dev\<close> is \<open>dev_num mod num_dev\<close> when \<open>dev_num\<close> is not negative and
  \<open>num_dev\<close> is positive.
\<close>

theorem construction_device_selection:
  fixes rt :: "('s, 'p) cuda_runtime" and w :: "'s world"
  assumes attr: "cudaFuncGetAttributes rt (rt_state w) = ((res, ptx), sa)"
    and cnt: "cudaGetDeviceCount rt (if nvcc then sa else rt_state w) = ((e, num_dev), s2)"
  shows
  "(nvcc \<and> res \<noteq> cudaSuccess \<longrightarrow>
      (\<exists>w'. ofp_context_t_gpu nvcc rt dps opt dev_num stream0 w
               = Some (Inl (cuda_exception_t res), w')))
   \<and> ((nvcc \<longrightarrow> res = cudaSuccess) \<and> num_dev \<noteq> 0 \<and> opt \<noteq> dummy
        \<and> \<not> (dev_num = INT_MIN \<and> num_dev = - 1) \<longrightarrow>
      (\<exists>this w' ord.
         ofp_context_t_gpu nvcc rt dps opt dev_num stream0 w = Some (Inr this, w')
         \<and> calls w' = calls w @ (if nvcc then [CudaFuncGetAttributes] else [])
             @ [CudaGetDeviceCount, CudaSetDevice (dev_num smod num_dev), CudaGetDevice,
                CudaGetDeviceProperties ord, CudaEventCreate, CudaEventCreate, CudaEventCreate]))
   \<and> ((nvcc \<longrightarrow> res = cudaSuccess) \<and> num_dev \<noteq> 0 \<and> opt = dummy \<longrightarrow>
      (\<exists>this w' ord.
         ofp_context_t_gpu nvcc rt dps opt dev_num stream0 w = Some (Inr this, w')
         \<and> calls w' = calls w @ (if nvcc then [CudaFuncGetAttributes] else [])
             @ [CudaGetDeviceCount, CudaGetDevice,
                CudaGetDeviceProperties ord, CudaEventCreate, CudaEventCreate, CudaEventCreate]))
   \<and> ((nvcc \<longrightarrow> res = cudaSuccess) \<and> num_dev = 0 \<longrightarrow>
      (\<exists>this w'.
         ofp_context_t_gpu nvcc rt dps opt dev_num stream0 w = Some (Inr this, w')
         \<and> stream_gpu this = stream0
         \<and> ptx_version_gpu this = Some (if nvcc then ptx else 60)
         \<and> calls w' = calls w @ (if nvcc then [CudaFuncGetAttributes] else [])
             @ [CudaGetDeviceCount]))
   \<and> (0 \<le> dev_num \<and> 0 < num_dev \<longrightarrow> dev_num smod num_dev = dev_num mod num_dev)"
proof -
  have throws: "nvcc \<and> res \<noteq> cudaSuccess \<longrightarrow>
      (\<exists>w'. ofp_context_t_gpu nvcc rt dps opt dev_num stream0 w
               = Some (Inl (cuda_exception_t res), w'))"
    using ctor_throws [OF attr] by auto
  have bound: "(nvcc \<longrightarrow> res = cudaSuccess) \<and> num_dev \<noteq> 0 \<and> opt \<noteq> dummy
        \<and> \<not> (dev_num = INT_MIN \<and> num_dev = - 1) \<longrightarrow>
      (\<exists>this w' ord.
         ofp_context_t_gpu nvcc rt dps opt dev_num stream0 w = Some (Inr this, w')
         \<and> calls w' = calls w @ (if nvcc then [CudaFuncGetAttributes] else [])
             @ [CudaGetDeviceCount, CudaSetDevice (dev_num smod num_dev), CudaGetDevice,
                CudaGetDeviceProperties ord, CudaEventCreate, CudaEventCreate, CudaEventCreate])"
  proof
    assume h: "(nvcc \<longrightarrow> res = cudaSuccess) \<and> num_dev \<noteq> 0 \<and> opt \<noteq> dummy
        \<and> \<not> (dev_num = INT_MIN \<and> num_dev = - 1)"
    then have ok: "nvcc \<longrightarrow> res = cudaSuccess" and dev: "num_dev \<noteq> 0" by simp_all
    from h have rem: "opt \<noteq> dummy \<longrightarrow> c_rem dev_num num_dev = Some (dev_num smod num_dev)"
      using c_rem_defined [of num_dev dev_num] by blast
    obtain e3 s3 where sel: "cudaSetDevice rt (dev_num smod num_dev) s2 = (e3, s3)"
      by (metis prod.exhaust)
    obtain e4 ord s4 where
      cur: "cudaGetDevice rt (if opt \<noteq> dummy then s3 else s2) = ((e4, ord), s4)"
      by (metis prod.exhaust)
    obtain e5 p s5 where prp: "cudaGetDeviceProperties rt ord s4 = ((e5, p), s5)"
      by (metis prod.exhaust)
    obtain e6 t0 s6 where ev0: "cudaEventCreate rt s5 = ((e6, t0), s6)"
      by (metis prod.exhaust)
    obtain e7 t1 s7 where ev1: "cudaEventCreate rt s6 = ((e7, t1), s7)"
      by (metis prod.exhaust)
    obtain e8 ev s8 where ev2: "cudaEventCreate rt s7 = ((e8, ev), s8)"
      by (metis prod.exhaust)
    show "\<exists>this w' ord.
         ofp_context_t_gpu nvcc rt dps opt dev_num stream0 w = Some (Inr this, w')
         \<and> calls w' = calls w @ (if nvcc then [CudaFuncGetAttributes] else [])
             @ [CudaGetDeviceCount, CudaSetDevice (dev_num smod num_dev), CudaGetDevice,
                CudaGetDeviceProperties ord, CudaEventCreate, CudaEventCreate, CudaEventCreate]"
      using ctor_with_devices [OF attr ok cnt dev rem sel cur prp ev0 ev1 ev2, of dps stream0] h
      by simp
  qed
  have skipped: "(nvcc \<longrightarrow> res = cudaSuccess) \<and> num_dev \<noteq> 0 \<and> opt = dummy \<longrightarrow>
      (\<exists>this w' ord.
         ofp_context_t_gpu nvcc rt dps opt dev_num stream0 w = Some (Inr this, w')
         \<and> calls w' = calls w @ (if nvcc then [CudaFuncGetAttributes] else [])
             @ [CudaGetDeviceCount, CudaGetDevice,
                CudaGetDeviceProperties ord, CudaEventCreate, CudaEventCreate, CudaEventCreate])"
  proof
    assume h: "(nvcc \<longrightarrow> res = cudaSuccess) \<and> num_dev \<noteq> 0 \<and> opt = dummy"
    then have ok: "nvcc \<longrightarrow> res = cudaSuccess" and dev: "num_dev \<noteq> 0" by simp_all
    from h have rem: "opt \<noteq> dummy \<longrightarrow> c_rem dev_num num_dev = Some 0" by simp
    obtain e3 s3 where sel: "cudaSetDevice rt 0 s2 = (e3, s3)"
      by (metis prod.exhaust)
    obtain e4 ord s4 where
      cur: "cudaGetDevice rt (if opt \<noteq> dummy then s3 else s2) = ((e4, ord), s4)"
      by (metis prod.exhaust)
    obtain e5 p s5 where prp: "cudaGetDeviceProperties rt ord s4 = ((e5, p), s5)"
      by (metis prod.exhaust)
    obtain e6 t0 s6 where ev0: "cudaEventCreate rt s5 = ((e6, t0), s6)"
      by (metis prod.exhaust)
    obtain e7 t1 s7 where ev1: "cudaEventCreate rt s6 = ((e7, t1), s7)"
      by (metis prod.exhaust)
    obtain e8 ev s8 where ev2: "cudaEventCreate rt s7 = ((e8, ev), s8)"
      by (metis prod.exhaust)
    show "\<exists>this w' ord.
         ofp_context_t_gpu nvcc rt dps opt dev_num stream0 w = Some (Inr this, w')
         \<and> calls w' = calls w @ (if nvcc then [CudaFuncGetAttributes] else [])
             @ [CudaGetDeviceCount, CudaGetDevice,
                CudaGetDeviceProperties ord, CudaEventCreate, CudaEventCreate, CudaEventCreate]"
      using ctor_with_devices [OF attr ok cnt dev rem sel cur prp ev0 ev1 ev2, of dps stream0] h
      by simp
  qed
  have none: "(nvcc \<longrightarrow> res = cudaSuccess) \<and> num_dev = 0 \<longrightarrow>
      (\<exists>this w'.
         ofp_context_t_gpu nvcc rt dps opt dev_num stream0 w = Some (Inr this, w')
         \<and> stream_gpu this = stream0
         \<and> ptx_version_gpu this = Some (if nvcc then ptx else 60)
         \<and> calls w' = calls w @ (if nvcc then [CudaFuncGetAttributes] else [])
             @ [CudaGetDeviceCount])"
  proof
    assume h: "(nvcc \<longrightarrow> res = cudaSuccess) \<and> num_dev = 0"
    then have ok: "nvcc \<longrightarrow> res = cudaSuccess" by simp
    from h cnt have cnt0: "cudaGetDeviceCount rt (if nvcc then sa else rt_state w) = ((e, 0), s2)"
      by simp
    show "\<exists>this w'.
         ofp_context_t_gpu nvcc rt dps opt dev_num stream0 w = Some (Inr this, w')
         \<and> stream_gpu this = stream0
         \<and> ptx_version_gpu this = Some (if nvcc then ptx else 60)
         \<and> calls w' = calls w @ (if nvcc then [CudaFuncGetAttributes] else [])
             @ [CudaGetDeviceCount]"
      using ctor_no_device [OF attr ok cnt0, of dps opt dev_num stream0]
      by (simp add: stream_gpu_def ptx_version_gpu_def)
  qed
  have rem: "0 \<le> dev_num \<and> 0 < num_dev \<longrightarrow> dev_num smod num_dev = dev_num mod num_dev"
    by (auto simp add: signed_modulo_int_def sgn_if)
  from throws bound skipped none rem show ?thesis by blast
qed

text \<open>
  On the simulated runtime with two devices: device 5 is bound as device 1, and \<open>dummy\<close>
  binds none; with no device nothing is called after the count; and a failed
  \<open>cudaFuncGetAttributes\<close> is thrown.
\<close>

theorem construction_device_selection_witness:
  "map_option (\<lambda>r. calls (snd r))
      (ofp_context_t_gpu False (sim_rt 2 0) sim_prop_string no_print_props 5 0 w0)
     = Some [CudaGetDeviceCount, CudaSetDevice 1, CudaGetDevice,
             CudaGetDeviceProperties (Some 0), CudaEventCreate, CudaEventCreate,
             CudaEventCreate]
   \<and> map_option (\<lambda>r. calls (snd r))
      (ofp_context_t_gpu False (sim_rt 2 0) sim_prop_string dummy 5 0 w0)
     = Some [CudaGetDeviceCount, CudaGetDevice,
             CudaGetDeviceProperties (Some 0), CudaEventCreate, CudaEventCreate,
             CudaEventCreate]
   \<and> map_option (\<lambda>r. calls (snd r))
      (ofp_context_t_gpu False (sim_rt 0 0) sim_prop_string dummy 5 0 w0)
     = Some [CudaGetDeviceCount]
   \<and> map_option fst (ofp_context_t_gpu True (sim_rt 2 35) sim_prop_string dummy 5 0 w0)
     = Some (Inl (cuda_exception_t 35))"
proof -
  have a: "map_option (\<lambda>r. calls (snd r))
      (ofp_context_t_gpu False (sim_rt 2 0) sim_prop_string no_print_props 5 0 w0)
     = Some [CudaGetDeviceCount, CudaSetDevice 1, CudaGetDevice,
             CudaGetDeviceProperties (Some 0), CudaEventCreate, CudaEventCreate,
             CudaEventCreate]"
    using construction_device_selection [of "sim_rt 2 0" w0 0 75 0 False 0 2 0
        sim_prop_string no_print_props 5 0]
    by (auto simp add: sim_rt_def w0_def cudaSuccess_def signed_modulo_int_def INT_MIN_def
        c_rem_def ofp_context_t_gpu_def init_gpu_def call_def)
  have b: "map_option (\<lambda>r. calls (snd r))
      (ofp_context_t_gpu False (sim_rt 2 0) sim_prop_string dummy 5 0 w0)
     = Some [CudaGetDeviceCount, CudaGetDevice,
             CudaGetDeviceProperties (Some 0), CudaEventCreate, CudaEventCreate,
             CudaEventCreate]"
    using construction_device_selection [of "sim_rt 2 0" w0 0 75 0 False 0 2 0
        sim_prop_string dummy 5 0]
    by (auto simp add: sim_rt_def w0_def cudaSuccess_def signed_modulo_int_def INT_MIN_def
        c_rem_def ofp_context_t_gpu_def init_gpu_def call_def)
  have c: "map_option (\<lambda>r. calls (snd r))
      (ofp_context_t_gpu False (sim_rt 0 0) sim_prop_string dummy 5 0 w0)
     = Some [CudaGetDeviceCount]"
    using construction_device_selection [of "sim_rt 0 0" w0 0 75 0 False 100 0 0
        sim_prop_string dummy 5 0]
    by (auto simp add: sim_rt_def w0_def cudaSuccess_def)
  have d: "map_option fst (ofp_context_t_gpu True (sim_rt 2 35) sim_prop_string dummy 5 0 w0)
     = Some (Inl (cuda_exception_t 35))"
    using construction_device_selection [of "sim_rt 2 35" w0 35 75 0 True 0 2 0
        sim_prop_string dummy 5 0]
    by (auto simp add: sim_rt_def w0_def cudaSuccess_def)
  from a b c d show ?thesis by simp
qed

subsection \<open>Destruction\<close>




subsection \<open>Timing\<close>

text \<open>
  Claim C5. On the accelerator class, \<open>timer_begin\<close> records \<open>_timer[0]\<close> on the stream.
  \<open>timer_end\<close> records \<open>_timer[1]\<close> on the stream, waits for it, asks the runtime for the time
  from \<open>_timer[0]\<close> to \<open>_timer[1]\<close>, which the runtime gives in milliseconds, and returns that
  number divided by 1000 (as a \<open>double\<close>): seconds. On the CPU stub, \<open>timer_end\<close> returns \<open>0\<close>
  and appends its diagnostic line whatever was called before (\<open>out\<close> is any output so far);
  it has no exception to throw.
\<close>

theorem timer_seconds:
  fixes rt :: "('s, 'p) cuda_runtime" and w :: "'s world"
  assumes rec0: "cudaEventRecord rt (m_timer0 this) (m_stream this) (rt_state w) = (e0, s0)"
    and rec1: "cudaEventRecord rt (m_timer1 this) (m_stream this) (rt_state w1) = (e1, s1)"
    and syn1: "cudaEventSynchronize rt (m_timer1 this) s1 = (e2, s2)"
    and elapsed: "cudaEventElapsedTime rt (m_timer0 this) (m_timer1 this) s2 = ((e3, ms), s3)"
  shows
  "timer_begin_gpu rt this w =
     w\<lparr>rt_state := s0, calls := calls w @ [CudaEventRecord (m_timer0 this) (m_stream this)]\<rparr>
   \<and> timer_end_gpu to_double rt this w1 =
       (to_double (ms / 1000),
        w1\<lparr>rt_state := s3,
           calls := calls w1 @ [CudaEventRecord (m_timer1 this) (m_stream this),
                               CudaEventSynchronize (m_timer1 this),
                               CudaEventElapsedTime (m_timer0 this) (m_timer1 this)]\<rparr>)
   \<and> timer_end_cpu file out = (0, out @ not_implemented file ''97'')"
  using assms by (simp add: timer_begin_gpu_def timer_end_gpu_def timer_end_cpu_def call_def)

text \<open>
  On the simulated runtime, whose intervals are 2500 ms long, with exact rounding:
  \<open>timer_end\<close> right after \<open>timer_begin\<close> returns 2.5.
\<close>

theorem timer_seconds_witness:
  "timer_end_gpu (\<lambda>x. x) (sim_rt 1 0)
      \<lparr>m_props = None, m_ptx_version = Some 60, m_stream = 0, m_timer0 = Some 1,
       m_timer1 = Some 2, m_event = Some 3, tmem = [], tmem2 = [], tmem3 = []\<rparr>
      (timer_begin_gpu (sim_rt 1 0)
        \<lparr>m_props = None, m_ptx_version = Some 60, m_stream = 0, m_timer0 = Some 1,
         m_timer1 = Some 2, m_event = Some 3, tmem = [], tmem2 = [], tmem3 = []\<rparr> w0)
    = (5 / 2,
       \<lparr>rt_state = 0,
        calls = [CudaEventRecord (Some 1) 0, CudaEventRecord (Some 2) 0,
                 CudaEventSynchronize (Some 2), CudaEventElapsedTime (Some 1) (Some 2)],
        stdout = []\<rparr>)
   \<and> timer_end_cpu ''ofp_context.hpp'' [] = (0, ''ofp_context.hpp:97 Not implemented'' @ endl)"
  using timer_seconds [of "sim_rt 1 0"
      "\<lparr>m_props = None, m_ptx_version = Some 60, m_stream = 0, m_timer0 = Some 1,
        m_timer1 = Some 2, m_event = Some 3, tmem = [], tmem2 = [], tmem3 = []\<rparr>"
      w0 0 0 "\<lparr>rt_state = 0, calls = [CudaEventRecord (Some 1) 0], stdout = []\<rparr>"
      0 0 0 0 0 2500 0 "\<lambda>x. x" "''ofp_context.hpp''" "[]"]
  by (simp add: sim_rt_def w0_def not_implemented_def)

subsection \<open>The members of the three classes\<close>

text \<open>
  Claim C3, as stated, fails: the CPU stub declares no \<open>getNDevice\<close>, one scratch vector and
  no accessor, and the class of a build without \<open>CUDA_ON_CPU\<close> and \<open>CUDA_GPU\<close> declares no
  member function and no scratch vector.
\<close>

theorem stub_lacks_members:
  "GetNDevice \<notin> set (member_functions CpuStub)
   \<and> TemporalCUB \<notin> set (member_functions CpuStub)
   \<and> length (scratch_members CpuStub) = 1
   \<and> member_functions Disabled = []
   \<and> scratch_members Disabled = []"
  by simp

text \<open>
  Claim C3, amended. The accelerator class declares \<open>alloc\<close>, \<open>free\<close>, \<open>synchronize\<close>, \<open>event\<close>,
  \<open>timer_begin\<close>, \<open>timer_end\<close>, \<open>getDevice\<close>, \<open>getNDevice\<close>, \<open>props\<close>, \<open>ptx_version\<close>, \<open>stream\<close>
  and three accessors, and owns three scratch vectors; each accessor gives the vector of the
  object it is called on (a vector stored in the object is the one its accessor gives, and
  the other two accessors do not see the store). The CPU stub declares the same functions
  but \<open>getNDevice\<close> and the three accessors, and owns one scratch vector. The class of a build
  without \<open>CUDA_ON_CPU\<close> and \<open>CUDA_GPU\<close> declares a constructor only.
\<close>

theorem members_of_the_classes:
  "set (member_functions RealAccelerator) = UNIV
   \<and> scratch_members RealAccelerator = [''tmem'', ''tmem2'', ''tmem3'']
   \<and> getTemporalCUB (this\<lparr>tmem := b\<rparr>) = b
   \<and> getTemporalCUB2 (this\<lparr>tmem2 := b\<rparr>) = b
   \<and> getTemporalCUB3 (this\<lparr>tmem3 := b\<rparr>) = b
   \<and> getTemporalCUB2 (this\<lparr>tmem := b\<rparr>) = getTemporalCUB2 this
   \<and> getTemporalCUB3 (this\<lparr>tmem := b\<rparr>) = getTemporalCUB3 this
   \<and> getTemporalCUB (this\<lparr>tmem2 := b\<rparr>) = getTemporalCUB this
   \<and> getTemporalCUB3 (this\<lparr>tmem2 := b\<rparr>) = getTemporalCUB3 this
   \<and> getTemporalCUB (this\<lparr>tmem3 := b\<rparr>) = getTemporalCUB this
   \<and> getTemporalCUB2 (this\<lparr>tmem3 := b\<rparr>) = getTemporalCUB2 this
   \<and> set (member_functions CpuStub)
       = UNIV - {GetNDevice, TemporalCUB, TemporalCUB2, TemporalCUB3}
   \<and> scratch_members CpuStub = [''tmem'']
   \<and> member_functions Disabled = []
   \<and> scratch_members Disabled = []"
proof -
  have all: "(UNIV :: capability set) =
      {Props, PtxVersion, Stream, Alloc, Free, Synchronize, Event, TimerBegin, TimerEnd,
       GetDevice, GetNDevice, TemporalCUB, TemporalCUB2, TemporalCUB3}"
  proof -
    have "x \<in> {Props, PtxVersion, Stream, Alloc, Free, Synchronize, Event, TimerBegin, TimerEnd,
       GetDevice, GetNDevice, TemporalCUB, TemporalCUB2, TemporalCUB3}" for x :: capability
      by (cases x) simp_all
    then show ?thesis by blast
  qed
  have real: "set (member_functions RealAccelerator) = UNIV"
    unfolding all by simp
  have stub: "set (member_functions CpuStub)
       = UNIV - {GetNDevice, TemporalCUB, TemporalCUB2, TemporalCUB3}"
    unfolding all by auto
  show ?thesis
    using real stub by (simp add: getTemporalCUB_def getTemporalCUB2_def getTemporalCUB3_def)
qed

section \<open>Properties of the emulation's variables\<close>

text \<open>
  Claim C10. \<open>n_workers\<close> is \<open>1\<close> when the program starts, and a partition of the blocks of a
  launch across up to that many workers sends any two blocks to the same worker.
\<close>

theorem one_worker_before_initialization:
  assumes part: "partitions_across (n_workers cudify_vars_initial) n_blocks worker_of"
    and b: "b < n_blocks" and b': "b' < n_blocks"
  shows "n_workers cudify_vars_initial = 1 \<and> worker_of b = worker_of b'"
proof -
  have one: "n_workers cudify_vars_initial = 1"
    by (simp add: cudify_vars_initial_def)
  have fin: "finite (worker_of ` {0..<n_blocks})" by simp
  have small: "card (worker_of ` {0..<n_blocks}) \<le> Suc 0"
    using part one by (simp add: partitions_across_def)
  have mem: "worker_of b \<in> worker_of ` {0..<n_blocks}" "worker_of b' \<in> worker_of ` {0..<n_blocks}"
    using b b' by simp_all
  have "worker_of b = worker_of b'"
    using card_le_Suc0_iff_eq [OF fin] small mem by blast
  with one show ?thesis by simp
qed

text \<open>Four blocks, all on worker \<open>0\<close>.\<close>

theorem one_worker_before_initialization_witness:
  "partitions_across (n_workers cudify_vars_initial) 4 (\<lambda>b. 0)
   \<and> n_workers cudify_vars_initial = 1 \<and> (\<lambda>b. 0 :: nat) (1 :: nat) = (\<lambda>b. 0) (3 :: nat)"
proof -
  have img: "(\<lambda>b. 0 :: nat) ` {0..<4 :: nat} = {0}"
    by (simp add: image_constant_conv)
  have p: "partitions_across (n_workers cudify_vars_initial) 4 (\<lambda>b. 0)"
    by (simp add: partitions_across_def cudify_vars_initial_def img)
  show ?thesis
    using one_worker_before_initialization [OF p, of 1 3] p by simp
qed

end
